theory Spec2Isabelle
  imports Main
begin

text \<open>
  The code actions that the language server derives from the text of a compiler
  diagnostic (\<^verbatim>\<open>server/src/codeActions.ts\<close>): the extractors, one per phrasing of
  the compiler, and the dispatcher that runs them over the lines of a message.
\<close>

section \<open>Strings\<close>

text \<open>
  A JavaScript string is a sequence of code units; it is modelled as a HOL \<open>string\<close>,
  whose characters are the code units below 256. The string methods the module calls are
  written out as list functions.
\<close>

text \<open>\<^verbatim>\<open>s.startsWith(p)\<close>\<close>

fun startsWith :: "string \<Rightarrow> string \<Rightarrow> bool" where
  "startsWith s [] = True"
| "startsWith [] (p # ps) = False"
| "startsWith (c # s) (p # ps) = (c = p \<and> startsWith s ps)"

text \<open>\<^verbatim>\<open>s.endsWith(p)\<close>\<close>

definition endsWith :: "string \<Rightarrow> string \<Rightarrow> bool" where
  "endsWith s p = startsWith (rev s) (rev p)"

text \<open>\<^verbatim>\<open>s.includes(p)\<close>: \<open>p\<close> occurs somewhere in \<open>s\<close>.\<close>

fun includesStr :: "string \<Rightarrow> string \<Rightarrow> bool" where
  "includesStr [] p = (p = [])"
| "includesStr (c # s) p = (startsWith (c # s) p \<or> includesStr s p)"

text \<open>
  \<^verbatim>\<open>s.split(sep)\<close> for a non-empty separator (every call of the module passes a
  non-empty literal). \<open>splitGo sep k cur s\<close> scans \<open>s\<close> from the left: \<open>cur\<close> is the
  piece read so far and \<open>k\<close> counts the characters of a separator occurrence that are
  still to be skipped.
\<close>

fun splitGo :: "string \<Rightarrow> nat \<Rightarrow> string \<Rightarrow> string \<Rightarrow> string list" where
  "splitGo sep k cur [] = [cur]"
| "splitGo sep (Suc k) cur (c # s) = splitGo sep k cur s"
| "splitGo sep 0 cur (c # s) =
     (if startsWith (c # s) sep then cur # splitGo sep (length sep - 1) [] s
      else splitGo sep 0 (cur @ [c]) s)"

definition splitStr :: "string \<Rightarrow> string \<Rightarrow> string list" where
  "splitStr s sep = splitGo sep 0 [] s"

text \<open>
  \<^verbatim>\<open>s.trim()\<close> removes white space and line terminators at both ends; these are the
  ones among the code units below 256.
\<close>

definition isWhiteSpace :: "char \<Rightarrow> bool" where
  "isWhiteSpace c =
     (c \<in> set [CHR 0x09, CHR 0x0A, CHR 0x0B, CHR 0x0C, CHR 0x0D, CHR 0x20, CHR 0xA0])"

definition trim :: "string \<Rightarrow> string" where
  "trim s = rev (dropWhile isWhiteSpace (rev (dropWhile isWhiteSpace s)))"

text \<open>\<^verbatim>\<open>s.replace(pat, rep)\<close> with a string pattern: the first occurrence only.\<close>

fun replaceFirst :: "string \<Rightarrow> string \<Rightarrow> string \<Rightarrow> string" where
  "replaceFirst [] pat rep = (if pat = [] then rep else [])"
| "replaceFirst (c # s) pat rep =
     (if startsWith (c # s) pat then rep @ drop (length pat) (c # s)
      else c # replaceFirst s pat rep)"

text \<open>
  \<^verbatim>\<open>Array.from({ length: n }).join(" ")\<close>: \<open>n\<close> undefined elements, each printed as
  the empty string, with a blank between neighbours. A length that is not positive
  gives the empty array.
\<close>

definition arrayFromJoinSpace :: "int \<Rightarrow> string" where
  "arrayFromJoinSpace n = replicate (nat n - 1) (CHR '' '')"

text \<open>The character classes of the two regular expressions.\<close>

definition isWordChar :: "char \<Rightarrow> bool" where
  "isWordChar c =
     (c \<in> set ''ABCDEFGHIJKLMNOPQRSTUVWXYZabcdefghijklmnopqrstuvwxyz0123456789_'')"

definition isWordOrDot :: "char \<Rightarrow> bool" where
  "isWordOrDot c = (isWordChar c \<or> c = CHR ''.'')"

definition isLineTerminator :: "char \<Rightarrow> bool" where
  "isLineTerminator c = (c = CHR 0x0A \<or> c = CHR 0x0D)"

section \<open>Data model\<close>

record Position =
  line :: int
  character :: int

record Range =
  rangeStart :: Position
  rangeEnd :: Position

record TextEdit =
  teRange :: Range
  newText :: string

record Diagnostic =
  diagRange :: Range
  message :: string
  severity :: nat

text \<open>
  \<open>changes\<close> is the object literal \<^verbatim>\<open>{ [file]: edits }\<close> of \<^verbatim>\<open>edit.changes\<close>, as
  its list of key and value pairs.
\<close>

record CodeAction =
  title :: string
  changes :: "(string \<times> TextEdit list) list"
  diagnostics :: "Diagnostic list"
  kind :: string
  isPreferred :: bool

record ActionEntry =
  entryRange :: Range
  codeAction :: CodeAction

text \<open>
  \<open>filesCodeActions\<close>: the accumulator, from a file path to the entries found for that
  file, in the order they were pushed. It is a dictionary of its own keys only: a file
  path is not the name of a property that every object inherits. The section on the
  accumulator as a plain object has the extractors without this restriction, and
  \<open>plain_object_own_key\<close> relates the two.
\<close>

type_synonym filesCodeActions = "string \<rightharpoonup> ActionEntry list"

record codeActionExtractorConfig =
  cLine :: string
  cIndex :: nat
  cArray :: "string list"
  cFile :: string
  cRange :: Range
  cDiagnostic :: Diagnostic

text \<open>
  An extractor either returns whether it found an action or throws. Both outcomes carry
  the accumulator as the extractor left it, since its writes are in place. The
  dispatcher hands the accumulator on and never looks into it, so outcomes and the
  dispatcher's loops are written for any type \<open>'a\<close> of accumulator.
\<close>

datatype error = TypeError

datatype 'a outcome = Returned bool 'a | Threw error 'a

type_synonym 'a extractorOn = "codeActionExtractorConfig \<Rightarrow> 'a \<Rightarrow> 'a outcome"

type_synonym codeActionExtractor = "filesCodeActions extractorOn"

text \<open>\<^verbatim>\<open>p.CodeActionKind.QuickFix\<close> of the language server protocol library.\<close>

definition QuickFix :: string where
  "QuickFix = ''quickfix''"

section \<open>Edits\<close>

definition wrapRangeInText :: "Range \<Rightarrow> string \<Rightarrow> string \<Rightarrow> TextEdit list" where
  "wrapRangeInText rng wrapStart wrapEnd =
     (let offset =
            (if line (rangeStart rng) = line (rangeEnd rng) \<and> character (rangeStart rng) = character (rangeEnd rng)
             then 1 else 0);
          startPos = \<lparr>line = line (rangeStart rng), character = character (rangeStart rng) - offset\<rparr>;
          endPos = \<lparr>line = line (rangeEnd rng), character = character (rangeEnd rng)\<rparr>
      in [\<lparr>teRange = \<lparr>rangeStart = startPos, rangeEnd = startPos\<rparr>, newText = wrapStart\<rparr>,
          \<lparr>teRange = \<lparr>rangeStart = endPos, rangeEnd = endPos\<rparr>, newText = wrapEnd\<rparr>])"

definition insertBeforeEndingChar :: "Range \<Rightarrow> string \<Rightarrow> TextEdit list" where
  "insertBeforeEndingChar rng txt =
     (let beforeEndingChar = \<lparr>line = line (rangeEnd rng), character = character (rangeEnd rng) - 1\<rparr>
      in [\<lparr>teRange = \<lparr>rangeStart = beforeEndingChar, rangeEnd = beforeEndingChar\<rparr>, newText = txt\<rparr>])"

text \<open>
  The two statements every extractor ends with:
  \<^verbatim>\<open>codeActions[file] = codeActions[file] || []\<close> and
  \<^verbatim>\<open>codeActions[file].push({ range, codeAction })\<close>, for a file path that is an own
  key of the accumulator or no key of it at all. What the two statements do for a key
  that names an inherited property is \<open>pushActionOnObject\<close>, in the section on the
  accumulator as a plain object.
\<close>

definition pushAction :: "filesCodeActions \<Rightarrow> string \<Rightarrow> Range \<Rightarrow> CodeAction \<Rightarrow> filesCodeActions" where
  "pushAction codeActions f rng ca =
     codeActions(f \<mapsto> (case codeActions f of None \<Rightarrow> [] | Some es \<Rightarrow> es)
                          @ [\<lparr>entryRange = rng, codeAction = ca\<rparr>])"

text \<open>The fields every extractor gives its action, around the title and the edits.\<close>

definition quickFix :: "codeActionExtractorConfig \<Rightarrow> string \<Rightarrow> TextEdit list \<Rightarrow> CodeAction" where
  "quickFix cfg t edits =
     \<lparr>title = t, changes = [(cFile cfg, edits)], diagnostics = [cDiagnostic cfg],
      kind = QuickFix, isPreferred = True\<rparr>"

section \<open>Identifier suggestion\<close>

text \<open>
  \<^verbatim>\<open>line.match(/Did you mean ([A-Za-z0-9_]*)?/)\<close>. The search takes the leftmost
  occurrence of the literal. The group is optional and its body is greedy: it captures
  the longest run of identifier characters, and an iteration that consumes nothing is
  dropped, which leaves the capture undefined. The result is \<open>None\<close> for no match,
  \<open>Some None\<close> for a match with the capture undefined.
\<close>

fun matchDidYouMean :: "string \<Rightarrow> string option option" where
  "matchDidYouMean [] = None"
| "matchDidYouMean (c # s) =
     (if startsWith (c # s) ''Did you mean '' then
        (let suggestion = takeWhile isWordChar (drop 13 (c # s))
         in Some (if suggestion = [] then None else Some suggestion))
      else matchDidYouMean s)"

definition didYouMeanAction :: codeActionExtractor where
  "didYouMeanAction cfg codeActions =
     (if startsWith (cLine cfg) ''Hint: Did you mean'' then
        (case matchDidYouMean (cLine cfg) of
           None \<Rightarrow> Returned False codeActions
         | Some None \<Rightarrow> Returned False codeActions
         | Some (Some suggestion) \<Rightarrow>
             Returned True
               (pushAction codeActions (cFile cfg) (cRange cfg)
                  (quickFix cfg (''Replace with '' @ [CHR 0x27] @ suggestion @ [CHR 0x27])
                     [\<lparr>teRange = cRange cfg, newText = suggestion\<rparr>])))
      else Returned False codeActions)"

section \<open>More string helpers\<close>

text \<open>\<^verbatim>\<open>s.slice(b, e)\<close>: a negative index counts from the end, and both are clamped.\<close>

definition sliceStr :: "string \<Rightarrow> int \<Rightarrow> int \<Rightarrow> string" where
  "sliceStr s b e =
     (let n = int (length s);
          from = (if b < 0 then max (n + b) 0 else min b n);
          to = (if e < 0 then max (n + e) 0 else min e n)
      in take (nat (to - from)) (drop (nat from) s))"

text \<open>\<^verbatim>\<open>xs.join(sep)\<close>\<close>

fun joinStr :: "string list \<Rightarrow> string \<Rightarrow> string" where
  "joinStr [] sep = []"
| "joinStr [x] sep = x"
| "joinStr (x # y # ys) sep = x @ sep @ joinStr (y # ys) sep"

text \<open>\<^verbatim>\<open>xs[i]\<close>, undefined (\<open>None\<close>) past the end.\<close>

definition nthOpt :: "'a list \<Rightarrow> nat \<Rightarrow> 'a option" where
  "nthOpt xs i = (if i < length xs then Some (xs ! i) else None)"

definition removeTrailingComma :: "string \<Rightarrow> string" where
  "removeTrailingComma text =
     (let str = trim text
      in if endsWith str '','' then sliceStr str 0 (int (length str) - 1) else str)"

text \<open>
  The loop of \<open>extractTypename\<close>, which stops after the first line that has a
  "(defined as" clause; of that line it keeps what stands before the clause.
\<close>

fun extractTypenameLoop :: "string list \<Rightarrow> string list" where
  "extractTypenameLoop [] = []"
| "extractTypenameLoop (l # ls) =
     (if includesStr l ''(defined as'' then
        (case splitStr l ''(defined as'' of
           typeStr # _ \<Rightarrow> [removeTrailingComma typeStr]
         | [] \<Rightarrow> [])
      else removeTrailingComma l # extractTypenameLoop ls)"

definition extractTypename :: "string list \<Rightarrow> string" where
  "extractTypename lines = trim (joinStr (extractTypenameLoop lines) [])"

fun takeUntil :: "string list \<Rightarrow> string \<Rightarrow> string list" where
  "takeUntil [] p = []"
| "takeUntil (l # ls) p = (if startsWith l p then [] else l # takeUntil ls p)"

section \<open>Missing record fields\<close>

text \<open>
  The \<^verbatim>\<open>forEach\<close> that builds the text of a multi-line record body; \<open>i\<close> is the index
  of the field at the head of the list.
\<close>

fun multilineFields :: "string \<Rightarrow> nat \<Rightarrow> string list \<Rightarrow> string" where
  "multilineFields paddingContentRecordField i [] = []"
| "multilineFields paddingContentRecordField i (fieldName # rest) =
     (if i = 0 then ''  '' else paddingContentRecordField)
     @ fieldName @ '': assert false,\<newline>''
     @ multilineFields paddingContentRecordField (Suc i) rest"

text \<open>
  The field names of the trigger line:
  \<^verbatim>\<open>line.trim().split("Some record fields are undefined: ")[1]?.split(" ")\<close>,
  undefined when the trimmed line has nothing after the marker.
\<close>

definition firstLineFieldNames :: "string \<Rightarrow> string list option" where
  "firstLineFieldNames l =
     map_option (\<lambda>s. splitStr s '' '')
       (nthOpt (splitStr (trim l) ''Some record fields are undefined: '') 1)"

text \<open>
  The text to insert. The padding is computed inside the branch for a multi-line body,
  as in the source.
\<close>

definition recordFieldsText :: "Range \<Rightarrow> string list \<Rightarrow> string" where
  "recordFieldsText rng recordFieldNames =
     (let multilineRecordDefinitionBody = (line (rangeStart rng) \<noteq> line (rangeEnd rng))
      in if multilineRecordDefinitionBody then
           (let paddingCharacters =
                  (if multilineRecordDefinitionBody then character (rangeEnd rng) + 2 else 0);
                paddingContentRecordField = arrayFromJoinSpace paddingCharacters;
                paddingContentEndBrace = arrayFromJoinSpace (character (rangeEnd rng))
            in multilineFields paddingContentRecordField 0 recordFieldNames
               @ paddingContentEndBrace)
         else '', '' @ joinStr (map (\<lambda>fieldName. fieldName @ '': assert false'') recordFieldNames) '', '')"

text \<open>
  When the trigger line gives no field list, \<open>recordFieldNames\<close> is undefined and the
  \<^verbatim>\<open>push\<close> for the first following line throws a TypeError; with no following line
  the extractor returns false.
\<close>

definition addUndefinedRecordFields :: codeActionExtractor where
  "addUndefinedRecordFields cfg codeActions =
     (if startsWith (cLine cfg) ''Some record fields are undefined:'' then
        (let rest = drop (cIndex cfg + 1) (cArray cfg)
         in case firstLineFieldNames (cLine cfg) of
              None \<Rightarrow>
                (if rest = [] then Returned False codeActions else Threw TypeError codeActions)
            | Some names \<Rightarrow>
                (let recordFieldNames = names @ concat (map (\<lambda>l. splitStr (trim l) '' '') rest)
                 in Returned True
                      (pushAction codeActions (cFile cfg) (cRange cfg)
                         (quickFix cfg ''Add missing record fields''
                            (insertBeforeEndingChar (cRange cfg)
                               (recordFieldsText (cRange cfg) recordFieldNames))))))
      else Returned False codeActions)"

section \<open>Type conversion\<close>

text \<open>
  \<^verbatim>\<open>/You can convert (\w*) to (\w*) with ([\w.]*).$/\<close> tried at the start of \<open>s\<close>.
  A blank is no word character, so each \<^verbatim>\<open>\w*\<close> must take the whole run of word
  characters in front of it. The last group is followed by one character that is no line
  terminator and by the end of the input, so it takes all of the rest but its last
  character. No group is optional: in a match the three captures are strings, and the
  test of the source that none of them is null holds.
\<close>

definition matchConversionAt :: "string \<Rightarrow> (string \<times> string \<times> string) option" where
  "matchConversionAt s =
     (if startsWith s ''You can convert '' then
        (let r1 = drop 16 s;
             from = takeWhile isWordChar r1;
             r2 = dropWhile isWordChar r1
         in if startsWith r2 '' to '' then
              (let r3 = drop 4 r2;
                   to = takeWhile isWordChar r3;
                   r4 = dropWhile isWordChar r3
               in if startsWith r4 '' with '' then
                    (let r5 = drop 6 r4
                     in if r5 \<noteq> [] \<and> list_all isWordOrDot (butlast r5)
                           \<and> \<not> isLineTerminator (last r5)
                        then Some (from, to, butlast r5) else None)
                  else None)
            else None)
      else None)"

text \<open>\<^verbatim>\<open>line.match(regex)\<close>: the leftmost position where the expression matches.\<close>

fun matchConversion :: "string \<Rightarrow> (string \<times> string \<times> string) option" where
  "matchConversion [] = None"
| "matchConversion (c # s) =
     (case matchConversionAt (c # s) of
        Some m \<Rightarrow> Some m
      | None \<Rightarrow> matchConversion s)"

definition simpleConversion :: codeActionExtractor where
  "simpleConversion cfg codeActions =
     (if startsWith (cLine cfg) ''You can convert '' then
        (case matchConversion (cLine cfg) of
           None \<Rightarrow> Returned False codeActions
         | Some (from, to, fn) \<Rightarrow>
             Returned True
               (pushAction codeActions (cFile cfg) (cRange cfg)
                  (quickFix cfg (''Convert '' @ from @ '' to '' @ to @ '' with '' @ fn)
                     (wrapRangeInText (cRange cfg) (fn @ ''('') '')''))))
      else Returned False codeActions)"

section \<open>Uncurried call\<close>

definition applyUncurried :: codeActionExtractor where
  "applyUncurried cfg codeActions =
     (if startsWith (cLine cfg)
           ''This is an uncurried ReScript function. It must be applied with a dot.''
      then
        (let locOfOpenFnParens =
               \<lparr>line = line (rangeEnd (cRange cfg)),
                character = character (rangeEnd (cRange cfg)) + 1\<rparr>
         in Returned True
              (pushAction codeActions (cFile cfg) (cRange cfg)
                 (quickFix cfg ''Apply uncurried function call with dot''
                    [\<lparr>teRange = \<lparr>rangeStart = locOfOpenFnParens, rangeEnd = locOfOpenFnParens\<rparr>,
                      newText = ''. ''\<rparr>])))
      else Returned False codeActions)"

section \<open>Missing match cases\<close>

text \<open>
  \<open>matched\<close> stands for \<^verbatim>\<open>text.match(/ /g)\<close>, the list of all blanks of the text.
  The source reads the first two pieces of the split; a text with a blank has at least
  two.
\<close>

function transformMatchPattern :: "string \<Rightarrow> string option" where
  "transformMatchPattern matchPattern =
     (if includesStr matchPattern ''('' \<or> includesStr matchPattern ''{'' then None
      else
        (let text0 = map (\<lambda>c. if c = CHR 0x60 then CHR ''#'' else c) matchPattern;
             matched = filter (\<lambda>c. c = CHR '' '') text0
         in if length matched > 2 then None
            else if includesStr text0 '' '' then
              (case splitStr text0 '' '' of
                 variantText # payloadText # _ \<Rightarrow>
                   (case transformMatchPattern payloadText of
                      None \<Rightarrow> None
                    | Some transformedPayloadText \<Rightarrow>
                        Some (variantText @ ''('' @ payloadText @ '')''))
               | _ \<Rightarrow> None)
            else Some text0))"
  by pat_completeness auto
text \<open>
  The recursive call is on the second piece of the split, and a piece after the first is
  shorter than the string that was split.
\<close>

termination
proof (relation "measure length")
  show "wf (measure length)" by simp
next
  fix matchPattern :: string and text0 variantText ps payloadText r
  assume text0: "text0 = map (\<lambda>c. if c = CHR 0x60 then CHR ''#'' else c) matchPattern"
    and pieces: "splitStr text0 '' '' = variantText # ps" "ps = payloadText # r"
  have le: "\<forall>y\<in>set (splitGo sep k cur s). length y \<le> length cur + length s"
    for sep k cur s
    by (induction sep k cur s rule: splitGo.induct) (auto, fastforce)
  have shorter: "splitGo sep k cur s = x # xs \<Longrightarrow> y \<in> set xs \<Longrightarrow> length y < length s"
    for sep k cur s x xs y
  proof (induction sep k cur s arbitrary: x xs rule: splitGo.induct)
    case (1 sep k cur)
    then show ?case by simp
  next
    case (2 sep k cur c s)
    then show ?case by fastforce
  next
    case (3 sep cur c s)
    show ?case
    proof (cases "startsWith (c # s) sep")
      case True
      with 3 have "y \<in> set (splitGo sep (length sep - 1) [] s)" by auto
      with le[of sep "length sep - 1" "[]" s] show ?thesis by auto
    next
      case False
      with 3 show ?thesis by fastforce
    qed
  qed
  show "(payloadText, matchPattern) \<in> measure length"
    using shorter[of "'' ''" 0 "[]" text0 variantText ps payloadText] text0 pieces
    by (simp add: splitStr_def)
qed

text \<open>\<^verbatim>\<open>.filter(Boolean)\<close> drops null and the empty string.\<close>

fun filterBoolean :: "string option list \<Rightarrow> string list" where
  "filterBoolean [] = []"
| "filterBoolean (None # xs) = filterBoolean xs"
| "filterBoolean (Some t # xs) = (if t = [] then filterBoolean xs else t # filterBoolean xs)"

text \<open>The \<^verbatim>\<open>map\<close> over the cases with their index.\<close>

fun caseArms :: "string \<Rightarrow> nat \<Rightarrow> string list \<Rightarrow> string list" where
  "caseArms paddingContentSwitchCase i [] = []"
| "caseArms paddingContentSwitchCase i (variantName # rest) =
     ((if i = 0 then [] else paddingContentSwitchCase)
        @ ''| '' @ variantName @ '' => assert false'')
     # caseArms paddingContentSwitchCase (Suc i) rest"

definition simpleAddMissingCases :: codeActionExtractor where
  "simpleAddMissingCases cfg codeActions =
     (if startsWith (cLine cfg) ''You forgot to handle a possible case here, for example:'' then
        (let joined = trim (joinStr (drop (cIndex cfg + 1) (cArray cfg)) []);
             allCasesAsOneLine = sliceStr joined 1 (int (length joined) - 1)
         in if includesStr allCasesAsOneLine ''('' then Returned False codeActions
            else
              (let hasMultipleCases = includesStr allCasesAsOneLine ''|'';
                   cases =
                     (if hasMultipleCases then
                        filterBoolean (map transformMatchPattern (splitStr allCasesAsOneLine ''|''))
                      else
                        (case transformMatchPattern allCasesAsOneLine of
                           None \<Rightarrow> []
                         | Some transformed \<Rightarrow> [transformed]))
               in if length cases = 0 then Returned False codeActions
                  else
                    (let paddingContentSwitchCase =
                           arrayFromJoinSpace (character (rangeEnd (cRange cfg)));
                         txt = joinStr (caseArms paddingContentSwitchCase 0 cases) ''\<newline>''
                               @ ''\<newline>'' @ paddingContentSwitchCase
                     in Returned True
                          (pushAction codeActions (cFile cfg) (cRange cfg)
                             (quickFix cfg ''Insert missing cases''
                                (insertBeforeEndingChar (cRange cfg) txt))))))
      else Returned False codeActions)"

section \<open>Type mismatch\<close>

text \<open>The \<^verbatim>\<open>switch\<close> over the wanted type that picks the default of the None arm.\<close>

definition defaultValue :: "string \<Rightarrow> string" where
  "defaultValue somewhereWanted =
     (if somewhereWanted = ''string'' then [CHR 0x22, CHR ''-'', CHR 0x22]
      else if somewhereWanted = ''bool'' then ''false''
      else if somewhereWanted = ''int'' then ''-1''
      else if somewhereWanted = ''float'' then ''-1.''
      else ''assert false'')"

definition thisHasTypeArr :: "codeActionExtractorConfig \<Rightarrow> string list" where
  "thisHasTypeArr cfg =
     takeUntil (drop (length ''This has type:'') (cLine cfg) # drop (cIndex cfg + 1) (cArray cfg))
       ''Somewhere wanted:''"

definition somewhereWantedArr :: "codeActionExtractorConfig \<Rightarrow> string list" where
  "somewhereWantedArr cfg =
     map (\<lambda>l. replaceFirst l ''Somewhere wanted:'' [])
       (drop (cIndex cfg + length (thisHasTypeArr cfg)) (cArray cfg))"

definition simpleTypeMismatches :: codeActionExtractor where
  "simpleTypeMismatches cfg codeActions =
     (if startsWith (cLine cfg) ''This has type:'' then
        (let thisHasType = extractTypename (thisHasTypeArr cfg);
             somewhereWanted = extractTypename (somewhereWantedArr cfg)
         in if thisHasType = ''option<'' @ somewhereWanted @ ''>'' then
              Returned True
                (pushAction codeActions (cFile cfg) (cRange cfg)
                   (quickFix cfg ''Unwrap optional value''
                      (wrapRangeInText (cRange cfg) ''switch ''
                         ('' { | None => '' @ defaultValue somewhereWanted
                            @ '' | Some(v) => v }''))))
            else if ''option<'' @ thisHasType @ ''>'' = somewhereWanted then
              Returned True
                (pushAction codeActions (cFile cfg) (cRange cfg)
                   (quickFix cfg ''Wrap value in Some''
                      (wrapRangeInText (cRange cfg) ''Some('' '')'')))
            else Returned False codeActions)
      else Returned False codeActions)"

section \<open>Dispatch\<close>

definition codeActionEtractors :: "codeActionExtractor list" where
  "codeActionEtractors =
     [simpleTypeMismatches, didYouMeanAction, addUndefinedRecordFields, simpleConversion,
      applyUncurried, simpleAddMissingCases]"

text \<open>
  The \<^verbatim>\<open>for ... of\<close> loop over the extractors for one line. The state is the
  accumulator and what \<^verbatim>\<open>console.error\<close> has printed. A throw is caught and
  printed, \<open>didFindAction\<close> stays false and the loop goes on; a true result breaks out
  of the loop.
\<close>

fun tryExtractors ::
  "'a extractorOn list \<Rightarrow> codeActionExtractorConfig \<Rightarrow>
     'a \<times> error list \<Rightarrow> 'a \<times> error list" where
  "tryExtractors [] cfg st = st"
| "tryExtractors (extractCodeAction # rest) cfg (codeActions, logged) =
     (case extractCodeAction cfg codeActions of
        Returned didFindAction codeActions' \<Rightarrow>
          (if didFindAction then (codeActions', logged)
           else tryExtractors rest cfg (codeActions', logged))
      | Threw e codeActions' \<Rightarrow> tryExtractors rest cfg (codeActions', logged @ [e]))"

record findCodeActionsConfig =
  diagnostic :: Diagnostic
  diagnosticMessage :: "string list"
  filePath :: string
  diagnosedRange :: Range

text \<open>
  \<^verbatim>\<open>diagnosticMessage.forEach((line, index, array) => ...)\<close>: \<open>i\<close> is the index of the
  line at the head of the list. Every line of the message is visited.
\<close>

fun forEachLine ::
  "'a extractorOn list \<Rightarrow> findCodeActionsConfig \<Rightarrow> nat \<Rightarrow> string list \<Rightarrow>
     'a \<times> error list \<Rightarrow> 'a \<times> error list" where
  "forEachLine extractors c i [] st = st"
| "forEachLine extractors c i (l # ls) st =
     forEachLine extractors c (Suc i) ls
       (tryExtractors extractors
          \<lparr>cLine = l, cIndex = i, cArray = diagnosticMessage c, cFile = filePath c,
           cRange = diagnosedRange c, cDiagnostic = diagnostic c\<rparr> st)"

definition findCodeActionsInDiagnosticsMessage ::
  "findCodeActionsConfig \<Rightarrow> filesCodeActions \<times> error list \<Rightarrow> filesCodeActions \<times> error list" where
  "findCodeActionsInDiagnosticsMessage c st =
     forEachLine codeActionEtractors c 0 (diagnosticMessage c) st"

section \<open>The accumulator as a plain object\<close>

text \<open>
  The accumulator of the source is a plain object, and \<^verbatim>\<open>codeActions[file]\<close> also finds
  the properties that an object literal inherits from its prototype. The value found
  there is no array. An own property of the accumulator is an array of entries or such
  an inherited value, stored by the first of the two statements of \<open>pushAction\<close>.
\<close>

datatype slot = Entries "ActionEntry list" | Inherited

type_synonym plainObject = "string \<rightharpoonup> slot"

text \<open>The names that \<^verbatim>\<open>Object.prototype\<close> defines.\<close>

definition objectPrototypeNames :: "string list" where
  "objectPrototypeNames =
     [''constructor'', ''hasOwnProperty'', ''isPrototypeOf'', ''propertyIsEnumerable'',
      ''toLocaleString'', ''toString'', ''valueOf'', ''__defineGetter__'',
      ''__defineSetter__'', ''__lookupGetter__'', ''__lookupSetter__'', ''__proto__'']"

text \<open>\<^verbatim>\<open>obj[f]\<close>: the own property, else the inherited one, else undefined.\<close>

definition getProp :: "plainObject \<Rightarrow> string \<Rightarrow> slot option" where
  "getProp obj f =
     (case obj f of
        Some v \<Rightarrow> Some v
      | None \<Rightarrow> if f \<in> set objectPrototypeNames then Some Inherited else None)"

text \<open>
  \<^verbatim>\<open>obj[f] = v\<close> makes an own property. The name \<^verbatim>\<open>__proto__\<close> is an accessor: the
  assignment sets the prototype, here to the prototype that was read, and makes no own
  property.
\<close>

definition setProp :: "plainObject \<Rightarrow> string \<Rightarrow> slot \<Rightarrow> plainObject" where
  "setProp obj f v = (if f = ''__proto__'' then obj else obj(f \<mapsto> v))"

text \<open>
  The two statements on a plain object. Every value that indexing finds is truthy, so
  the first statement stores what it read, or an empty array when it read undefined.
  The second throws a TypeError when what is stored has no \<^verbatim>\<open>push\<close>; the store of the
  first statement has happened by then.
\<close>

definition pushActionOnObject ::
  "plainObject \<Rightarrow> string \<Rightarrow> Range \<Rightarrow> CodeAction \<Rightarrow> plainObject outcome" where
  "pushActionOnObject codeActions f rng ca =
     (let codeActions1 =
            setProp codeActions f
              (case getProp codeActions f of None \<Rightarrow> Entries [] | Some v \<Rightarrow> v)
      in case getProp codeActions1 f of
           Some (Entries es) \<Rightarrow>
             Returned True
               (setProp codeActions1 f (Entries (es @ [\<lparr>entryRange = rng, codeAction = ca\<rparr>])))
         | _ \<Rightarrow> Threw TypeError codeActions1)"

text \<open>
  The six extractors and the dispatcher over a plain object: the same functions, with the
  two statements as above, for every file key. The columns are exact integers as before:
  an exception raised between the two statements, such as the RangeError of
  \<^verbatim>\<open>Array.from\<close> for a length of 2^32 or more in the extractor for record fields, is
  not part of these definitions. What is proved below about exceptions is proved for any
  extractor and does not depend on which exceptions these definitions have.
\<close>

definition simpleTypeMismatchesOnObject :: "plainObject extractorOn" where
  "simpleTypeMismatchesOnObject cfg codeActions =
     (if startsWith (cLine cfg) ''This has type:'' then
        (let thisHasType = extractTypename (thisHasTypeArr cfg);
             somewhereWanted = extractTypename (somewhereWantedArr cfg)
         in if thisHasType = ''option<'' @ somewhereWanted @ ''>'' then
              pushActionOnObject codeActions (cFile cfg) (cRange cfg)
                (quickFix cfg ''Unwrap optional value''
                   (wrapRangeInText (cRange cfg) ''switch ''
                      ('' { | None => '' @ defaultValue somewhereWanted
                         @ '' | Some(v) => v }'')))
            else if ''option<'' @ thisHasType @ ''>'' = somewhereWanted then
              pushActionOnObject codeActions (cFile cfg) (cRange cfg)
                (quickFix cfg ''Wrap value in Some''
                   (wrapRangeInText (cRange cfg) ''Some('' '')''))
            else Returned False codeActions)
      else Returned False codeActions)"

definition didYouMeanActionOnObject :: "plainObject extractorOn" where
  "didYouMeanActionOnObject cfg codeActions =
     (if startsWith (cLine cfg) ''Hint: Did you mean'' then
        (case matchDidYouMean (cLine cfg) of
           None \<Rightarrow> Returned False codeActions
         | Some None \<Rightarrow> Returned False codeActions
         | Some (Some suggestion) \<Rightarrow>
             pushActionOnObject codeActions (cFile cfg) (cRange cfg)
               (quickFix cfg (''Replace with '' @ [CHR 0x27] @ suggestion @ [CHR 0x27])
                  [\<lparr>teRange = cRange cfg, newText = suggestion\<rparr>]))
      else Returned False codeActions)"

definition addUndefinedRecordFieldsOnObject :: "plainObject extractorOn" where
  "addUndefinedRecordFieldsOnObject cfg codeActions =
     (if startsWith (cLine cfg) ''Some record fields are undefined:'' then
        (let rest = drop (cIndex cfg + 1) (cArray cfg)
         in case firstLineFieldNames (cLine cfg) of
              None \<Rightarrow>
                (if rest = [] then Returned False codeActions else Threw TypeError codeActions)
            | Some names \<Rightarrow>
                (let recordFieldNames = names @ concat (map (\<lambda>l. splitStr (trim l) '' '') rest)
                 in pushActionOnObject codeActions (cFile cfg) (cRange cfg)
                      (quickFix cfg ''Add missing record fields''
                         (insertBeforeEndingChar (cRange cfg)
                            (recordFieldsText (cRange cfg) recordFieldNames)))))
      else Returned False codeActions)"

definition simpleConversionOnObject :: "plainObject extractorOn" where
  "simpleConversionOnObject cfg codeActions =
     (if startsWith (cLine cfg) ''You can convert '' then
        (case matchConversion (cLine cfg) of
           None \<Rightarrow> Returned False codeActions
         | Some (from, to, fn) \<Rightarrow>
             pushActionOnObject codeActions (cFile cfg) (cRange cfg)
               (quickFix cfg (''Convert '' @ from @ '' to '' @ to @ '' with '' @ fn)
                  (wrapRangeInText (cRange cfg) (fn @ ''('') '')'')))
      else Returned False codeActions)"

definition applyUncurriedOnObject :: "plainObject extractorOn" where
  "applyUncurriedOnObject cfg codeActions =
     (if startsWith (cLine cfg)
           ''This is an uncurried ReScript function. It must be applied with a dot.''
      then
        (let locOfOpenFnParens =
               \<lparr>line = line (rangeEnd (cRange cfg)),
                character = character (rangeEnd (cRange cfg)) + 1\<rparr>
         in pushActionOnObject codeActions (cFile cfg) (cRange cfg)
              (quickFix cfg ''Apply uncurried function call with dot''
                 [\<lparr>teRange = \<lparr>rangeStart = locOfOpenFnParens, rangeEnd = locOfOpenFnParens\<rparr>,
                   newText = ''. ''\<rparr>]))
      else Returned False codeActions)"

definition simpleAddMissingCasesOnObject :: "plainObject extractorOn" where
  "simpleAddMissingCasesOnObject cfg codeActions =
     (if startsWith (cLine cfg) ''You forgot to handle a possible case here, for example:'' then
        (let joined = trim (joinStr (drop (cIndex cfg + 1) (cArray cfg)) []);
             allCasesAsOneLine = sliceStr joined 1 (int (length joined) - 1)
         in if includesStr allCasesAsOneLine ''('' then Returned False codeActions
            else
              (let hasMultipleCases = includesStr allCasesAsOneLine ''|'';
                   cases =
                     (if hasMultipleCases then
                        filterBoolean (map transformMatchPattern (splitStr allCasesAsOneLine ''|''))
                      else
                        (case transformMatchPattern allCasesAsOneLine of
                           None \<Rightarrow> []
                         | Some transformed \<Rightarrow> [transformed]))
               in if length cases = 0 then Returned False codeActions
                  else
                    (let paddingContentSwitchCase =
                           arrayFromJoinSpace (character (rangeEnd (cRange cfg)));
                         txt = joinStr (caseArms paddingContentSwitchCase 0 cases) ''\<newline>''
                               @ ''\<newline>'' @ paddingContentSwitchCase
                     in pushActionOnObject codeActions (cFile cfg) (cRange cfg)
                          (quickFix cfg ''Insert missing cases''
                             (insertBeforeEndingChar (cRange cfg) txt)))))
      else Returned False codeActions)"

definition codeActionEtractorsOnObject :: "plainObject extractorOn list" where
  "codeActionEtractorsOnObject =
     [simpleTypeMismatchesOnObject, didYouMeanActionOnObject, addUndefinedRecordFieldsOnObject,
      simpleConversionOnObject, applyUncurriedOnObject, simpleAddMissingCasesOnObject]"

definition findCodeActionsInDiagnosticsMessageOnObject ::
  "findCodeActionsConfig \<Rightarrow> plainObject \<times> error list \<Rightarrow> plainObject \<times> error list" where
  "findCodeActionsInDiagnosticsMessageOnObject c st =
     forEachLine codeActionEtractorsOnObject c 0 (diagnosticMessage c) st"

text \<open>An accumulator of arrays only, as a plain object.\<close>

definition asObject :: "filesCodeActions \<Rightarrow> plainObject" where
  "asObject codeActions = map_option Entries \<circ> codeActions"

section \<open>The extractors by name\<close>

text \<open>
  The six trigger prefixes exclude each other, so the accumulator cannot show in which
  order the extractors were called. The calls are made visible by an observer: each
  extractor gets a name, and an observed extractor does what the extractor does and
  appends its name to a list of calls that is carried next to the accumulator. The loop
  that runs the observed extractors is the dispatcher's own loop.
\<close>

datatype extractorName =
  SimpleTypeMismatches | DidYouMeanAction | AddUndefinedRecordFields | SimpleConversion
  | ApplyUncurried | SimpleAddMissingCases

fun extractorOf :: "extractorName \<Rightarrow> codeActionExtractor" where
  "extractorOf SimpleTypeMismatches = simpleTypeMismatches"
| "extractorOf DidYouMeanAction = didYouMeanAction"
| "extractorOf AddUndefinedRecordFields = addUndefinedRecordFields"
| "extractorOf SimpleConversion = simpleConversion"
| "extractorOf ApplyUncurried = applyUncurried"
| "extractorOf SimpleAddMissingCases = simpleAddMissingCases"

definition observed ::
  "extractorName \<Rightarrow> (filesCodeActions \<times> extractorName list) extractorOn" where
  "observed n cfg s =
     (case extractorOf n cfg (fst s) of
        Returned b codeActions' \<Rightarrow> Returned b (codeActions', snd s @ [n])
      | Threw e codeActions' \<Rightarrow> Threw e (codeActions', snd s @ [n]))"

section \<open>Outcomes, and the behaviour in the words of the specification\<close>

text \<open>Whether an outcome reports a match, and the accumulator it leaves.\<close>

fun didFind :: "'a outcome \<Rightarrow> bool" where
  "didFind (Returned b codeActions) = b"
| "didFind (Threw e codeActions) = False"

fun accOf :: "'a outcome \<Rightarrow> 'a" where
  "accOf (Returned b codeActions) = codeActions"
| "accOf (Threw e codeActions) = codeActions"

text \<open>
  Tried in order, in the words of the specification: the extractors of the list are
  called one after the other, each on the accumulator of the line, and the first one
  that reports a match is the last one called.
\<close>

fun triedInOrder ::
  "extractorName list \<Rightarrow> codeActionExtractorConfig \<Rightarrow> filesCodeActions \<Rightarrow> extractorName list" where
  "triedInOrder [] cfg codeActions = []"
| "triedInOrder (n # rest) cfg codeActions =
     n # (if didFind (extractorOf n cfg codeActions) then []
          else triedInOrder rest cfg codeActions)"



text \<open>
  The layout the specification describes for a multi-line record body whose closing
  delimiter stands at column \<open>c\<close>, read from the start of the delimiter's line: every
  field on a line of its own, padded to column \<open>c + 2\<close> where the existing fields
  start, with the placeholder value and a trailing comma; then \<open>c\<close> blanks, so that the
  delimiter that follows is at its original column.
\<close>

definition multilineRecordLayout :: "nat \<Rightarrow> string list \<Rightarrow> string" where
  "multilineRecordLayout c fieldNames =
     concat (map (\<lambda>f. replicate (c + 2) (CHR '' '') @ f @ '': assert false,'' @ ''\<newline>'')
               fieldNames)
     @ replicate c (CHR '' '')"

section \<open>Example values\<close>

definition exampleRange :: Range where
  "exampleRange =
     \<lparr>rangeStart = \<lparr>line = 3, character = 8\<rparr>, rangeEnd = \<lparr>line = 3, character = 20\<rparr>\<rparr>"

definition exampleMultilineRange :: Range where
  "exampleMultilineRange =
     \<lparr>rangeStart = \<lparr>line = 3, character = 16\<rparr>, rangeEnd = \<lparr>line = 5, character = 3\<rparr>\<rparr>"

definition exampleDiagnostic :: Diagnostic where
  "exampleDiagnostic = \<lparr>diagRange = exampleRange, message = ''example'', severity = 1\<rparr>"

text \<open>The configuration an extractor gets for line \<open>i\<close> of a message.\<close>

definition exampleConfig :: "string list \<Rightarrow> nat \<Rightarrow> Range \<Rightarrow> codeActionExtractorConfig" where
  "exampleConfig msg i rng =
     \<lparr>cLine = msg ! i, cIndex = i, cArray = msg, cFile = ''a.res'', cRange = rng,
      cDiagnostic = exampleDiagnostic\<rparr>"

definition optionWrapMessage :: "string list" where
  "optionWrapMessage = [''This has type: string'', ''Somewhere wanted: option<string>'']"


definition hintMessage :: "string list" where
  "hintMessage = [''Hint: Did you mean foo'']"

definition noTriggerMessage :: "string list" where
  "noTriggerMessage = [''unused variable x.'']"


definition examplePoint :: Range where
  "examplePoint =
     \<lparr>rangeStart = \<lparr>line = 7, character = 12\<rparr>, rangeEnd = \<lparr>line = 7, character = 12\<rparr>\<rparr>"

definition multilineFieldsMessage :: "string list" where
  "multilineFieldsMessage = [''Some record fields are undefined: foo bar'', ''baz'']"

definition conversionMessage :: "string list" where
  "conversionMessage = [''You can convert int to float with Belt.Float.fromInt.'']"

definition missingCasesMessage :: "string list" where
  "missingCasesMessage =
     [''You forgot to handle a possible case here, for example:'',
      ''(`AnotherValue|`Third|`Fourth)'']"

definition tuplePayloadMessage :: "string list" where
  "tuplePayloadMessage =
     [''You forgot to handle a possible case here, for example:'', ''(Some (_, _)|None)'']"

definition twoBlanksMessage :: "string list" where
  "twoBlanksMessage =
     [''You forgot to handle a possible case here, for example:'', ''(A b c|D)'']"

definition optionUnwrapMessage :: "string list" where
  "optionUnwrapMessage = [''This has type: option<string>'', ''Somewhere wanted: string'']"

section \<open>Auxiliary facts\<close>

lemma takeWhile_token:
  "list_all P tok \<Longrightarrow> rest = [] \<or> \<not> P (hd rest) \<Longrightarrow> takeWhile P (tok @ rest) = tok"
  by (cases rest) (auto simp: list_all_iff)

lemma dropWhile_token:
  "list_all P tok \<Longrightarrow> rest = [] \<or> \<not> P (hd rest) \<Longrightarrow> dropWhile P (tok @ rest) = rest"
  by (cases rest) (auto simp: list_all_iff)

lemma Position_eta: "\<lparr>line = line p, character = character p\<rparr> = p"
  by (cases p) simp

lemma matchDidYouMean_absent:
  "\<not> includesStr l ''Did you mean '' \<Longrightarrow> matchDidYouMean l = None"
  by (induction l) auto

lemma splitGo_nonempty: "splitGo sep k cur s \<noteq> []"
  by (induction sep k cur s rule: splitGo.induct) auto

lemma multilineFields_Suc:
  "multilineFields pad (Suc i) fs = concat (map (\<lambda>f. pad @ f @ '': assert false,\<newline>'') fs)"
  by (induction fs arbitrary: i) auto

lemma sliceStr_strip:
  "sliceStr (a # body @ [b]) 1 (int (length (a # body @ [b])) - 1) = body"
  by (simp add: sliceStr_def)

lemma arrayFromJoinSpace_replicate:
  "arrayFromJoinSpace n = replicate (nat (n - 1)) (CHR '' '')"
proof -
  have "nat n - 1 = nat (n - 1)" by (simp add: nat_diff_distrib')
  then show ?thesis by (simp add: arrayFromJoinSpace_def)
qed

lemma option_wrap_exclusive:
  "t = ''option<'' @ w @ ''>'' \<Longrightarrow> w \<noteq> ''option<'' @ t @ ''>''"
proof
  assume "t = ''option<'' @ w @ ''>''" and "w = ''option<'' @ t @ ''>''"
  then have "length t = 8 + length w" "length w = 8 + length t" by simp_all
  then show False by simp
qed

text \<open>
  A registered extractor that reports no match, by returning false or by throwing, has
  not written to the accumulator.
\<close>

lemma quiet_simpleTypeMismatches:
  "\<not> didFind (simpleTypeMismatches cfg a) \<Longrightarrow> accOf (simpleTypeMismatches cfg a) = a"
  by (simp add: simpleTypeMismatches_def Let_def split: if_splits)

lemma quiet_didYouMeanAction:
  "\<not> didFind (didYouMeanAction cfg a) \<Longrightarrow> accOf (didYouMeanAction cfg a) = a"
  by (simp add: didYouMeanAction_def split: if_splits option.splits)

lemma quiet_addUndefinedRecordFields:
  "\<not> didFind (addUndefinedRecordFields cfg a) \<Longrightarrow> accOf (addUndefinedRecordFields cfg a) = a"
  by (simp add: addUndefinedRecordFields_def Let_def split: if_splits option.splits)

lemma quiet_simpleConversion:
  "\<not> didFind (simpleConversion cfg a) \<Longrightarrow> accOf (simpleConversion cfg a) = a"
  by (simp add: simpleConversion_def split: if_splits option.splits prod.splits)

lemma quiet_applyUncurried:
  "\<not> didFind (applyUncurried cfg a) \<Longrightarrow> accOf (applyUncurried cfg a) = a"
  by (simp add: applyUncurried_def Let_def split: if_splits)

lemma quiet_simpleAddMissingCases:
  "\<not> didFind (simpleAddMissingCases cfg a) \<Longrightarrow> accOf (simpleAddMissingCases cfg a) = a"
  by (simp add: simpleAddMissingCases_def Let_def split: if_splits)

lemma quiet_extractorOf:
  "\<not> didFind (extractorOf n cfg a) \<Longrightarrow> accOf (extractorOf n cfg a) = a"
  by (cases n)
    (simp_all add: quiet_simpleTypeMismatches quiet_didYouMeanAction
      quiet_addUndefinedRecordFields quiet_simpleConversion quiet_applyUncurried
      quiet_simpleAddMissingCases)

lemma observed_accumulator:
  "fst (fst (tryExtractors (map observed ns) cfg ((a, cs), lg)))
     = fst (tryExtractors (map extractorOf ns) cfg (a, lg))"
proof (induction ns arbitrary: a cs lg)
  case Nil
  then show ?case by simp
next
  case (Cons n ns)
  show ?case
  proof (cases "extractorOf n cfg a")
    case (Returned b a')
    then show ?thesis using Cons.IH[of a' "cs @ [n]" lg] by (simp add: observed_def)
  next
    case (Threw e a')
    then show ?thesis using Cons.IH[of a' "cs @ [n]" "lg @ [e]"] by (simp add: observed_def)
  qed
qed

lemma observed_calls:
  "snd (fst (tryExtractors (map observed ns) cfg ((a, cs), lg))) = cs @ triedInOrder ns cfg a"
proof (induction ns arbitrary: cs lg)
  case Nil
  then show ?case by simp
next
  case (Cons n ns)
  show ?case
  proof (cases "extractorOf n cfg a")
    case (Returned b a')
    show ?thesis
    proof (cases b)
      case True
      with Returned show ?thesis by (simp add: observed_def)
    next
      case False
      with Returned have "a' = a" using quiet_extractorOf[of n cfg a] by simp
      with Returned False show ?thesis using Cons.IH[of "cs @ [n]" lg] by (simp add: observed_def)
    qed
  next
    case (Threw e a')
    then have "a' = a" using quiet_extractorOf[of n cfg a] by simp
    with Threw show ?thesis using Cons.IH[of "cs @ [n]" "lg @ [e]"] by (simp add: observed_def)
  qed
qed

lemma triedInOrder_prefix:
  "ns \<noteq> [] \<Longrightarrow>
   \<exists>k. 0 < k \<and> k \<le> length ns \<and> triedInOrder ns cfg a = take k ns
     \<and> (\<forall>i. i < k - 1 \<longrightarrow> \<not> didFind (extractorOf (ns ! i) cfg a))
     \<and> (k < length ns \<longrightarrow> didFind (extractorOf (ns ! (k - 1)) cfg a))"
proof (induction ns)
  case Nil
  then show ?case by simp
next
  case (Cons n ns)
  show ?case
  proof (cases "didFind (extractorOf n cfg a)")
    case True
    then show ?thesis by (intro exI[of _ 1]) simp
  next
    case False
    show ?thesis
    proof (cases "ns = []")
      case True
      with False show ?thesis by (intro exI[of _ 1]) simp
    next
      case nonempty: False
      from Cons.IH[OF nonempty] obtain k where k: "0 < k" "k \<le> length ns"
        "triedInOrder ns cfg a = take k ns"
        "\<forall>i. i < k - 1 \<longrightarrow> \<not> didFind (extractorOf (ns ! i) cfg a)"
        "k < length ns \<longrightarrow> didFind (extractorOf (ns ! (k - 1)) cfg a)"
        by blast
      have "\<forall>i. i < Suc k - 1 \<longrightarrow> \<not> didFind (extractorOf ((n # ns) ! i) cfg a)"
      proof (intro allI impI)
        fix i assume "i < Suc k - 1"
        then show "\<not> didFind (extractorOf ((n # ns) ! i) cfg a)"
          using False k(4) by (cases i) auto
      qed
      moreover have "Suc k < length (n # ns) \<longrightarrow> didFind (extractorOf ((n # ns) ! (Suc k - 1)) cfg a)"
        using k(1,5) by (cases k) auto
      ultimately show ?thesis
        using False k(1,2,3) by (intro exI[of _ "Suc k"]) simp
    qed
  qed
qed

text \<open>The hint and a line without a trigger, evaluated.\<close>

lemma hint_eval:
  "didYouMeanAction (exampleConfig hintMessage 0 exampleRange) Map.empty =
     Returned True
       [''a.res'' \<mapsto>
          [\<lparr>entryRange = exampleRange,
            codeAction =
              \<lparr>title = ''Replace with '' @ [CHR 0x27] @ ''foo'' @ [CHR 0x27],
               changes = [(''a.res'', [\<lparr>teRange = exampleRange, newText = ''foo''\<rparr>])],
               diagnostics = [exampleDiagnostic], kind = ''quickfix'', isPreferred = True\<rparr>\<rparr>]]"
  by (simp add: didYouMeanAction_def exampleConfig_def hintMessage_def pushAction_def
      quickFix_def QuickFix_def isWordChar_def)

lemma hint_no_type_mismatch:
  "simpleTypeMismatches (exampleConfig hintMessage 0 exampleRange) a = Returned False a"
  by (simp add: simpleTypeMismatches_def exampleConfig_def hintMessage_def)

lemma noTrigger_eval:
  "simpleTypeMismatches (exampleConfig noTriggerMessage 0 exampleRange) a = Returned False a"
  "didYouMeanAction (exampleConfig noTriggerMessage 0 exampleRange) a = Returned False a"
  "addUndefinedRecordFields (exampleConfig noTriggerMessage 0 exampleRange) a = Returned False a"
  "simpleConversion (exampleConfig noTriggerMessage 0 exampleRange) a = Returned False a"
  "applyUncurried (exampleConfig noTriggerMessage 0 exampleRange) a = Returned False a"
  "simpleAddMissingCases (exampleConfig noTriggerMessage 0 exampleRange) a = Returned False a"
  by (simp_all add: simpleTypeMismatches_def didYouMeanAction_def addUndefinedRecordFields_def
      simpleConversion_def applyUncurried_def simpleAddMissingCases_def exampleConfig_def
      noTriggerMessage_def)






text \<open>
  For a file path that is no inherited name, and an accumulator of arrays, the extractors
  and the dispatcher over a plain object do what the ones over the dictionary do.
\<close>

lemma pushActionOnObject_own_key:
  "f \<notin> set objectPrototypeNames \<Longrightarrow>
   pushActionOnObject (asObject codeActions) f rng ca
     = Returned True (asObject (pushAction codeActions f rng ca))"
  by (cases "codeActions f")
     (auto simp: pushActionOnObject_def getProp_def setProp_def asObject_def pushAction_def
        objectPrototypeNames_def Let_def fun_eq_iff)

lemma own_key_simpleTypeMismatches:
  "cFile cfg \<notin> set objectPrototypeNames \<Longrightarrow>
   simpleTypeMismatchesOnObject cfg (asObject a) = map_outcome asObject (simpleTypeMismatches cfg a)"
  by (simp add: simpleTypeMismatchesOnObject_def simpleTypeMismatches_def
      pushActionOnObject_own_key Let_def)

lemma own_key_didYouMeanAction:
  "cFile cfg \<notin> set objectPrototypeNames \<Longrightarrow>
   didYouMeanActionOnObject cfg (asObject a) = map_outcome asObject (didYouMeanAction cfg a)"
  by (simp add: didYouMeanActionOnObject_def didYouMeanAction_def pushActionOnObject_own_key
      split: option.splits)

lemma own_key_addUndefinedRecordFields:
  "cFile cfg \<notin> set objectPrototypeNames \<Longrightarrow>
   addUndefinedRecordFieldsOnObject cfg (asObject a)
     = map_outcome asObject (addUndefinedRecordFields cfg a)"
  by (simp add: addUndefinedRecordFieldsOnObject_def addUndefinedRecordFields_def
      pushActionOnObject_own_key Let_def split: option.splits)

lemma own_key_simpleConversion:
  "cFile cfg \<notin> set objectPrototypeNames \<Longrightarrow>
   simpleConversionOnObject cfg (asObject a) = map_outcome asObject (simpleConversion cfg a)"
  by (simp add: simpleConversionOnObject_def simpleConversion_def pushActionOnObject_own_key
      split: option.splits prod.splits)

lemma own_key_applyUncurried:
  "cFile cfg \<notin> set objectPrototypeNames \<Longrightarrow>
   applyUncurriedOnObject cfg (asObject a) = map_outcome asObject (applyUncurried cfg a)"
  by (simp add: applyUncurriedOnObject_def applyUncurried_def pushActionOnObject_own_key Let_def)

lemma own_key_simpleAddMissingCases:
  "cFile cfg \<notin> set objectPrototypeNames \<Longrightarrow>
   simpleAddMissingCasesOnObject cfg (asObject a)
     = map_outcome asObject (simpleAddMissingCases cfg a)"
  by (simp add: simpleAddMissingCasesOnObject_def simpleAddMissingCases_def
      pushActionOnObject_own_key Let_def del: transformMatchPattern.simps)

lemma tryExtractors_own_key:
  assumes "list_all2 (\<lambda>exO ex. \<forall>a. exO cfg (asObject a) = map_outcome asObject (ex cfg a)) exsO exs"
  shows "tryExtractors exsO cfg (asObject a, lg)
    = (asObject (fst (tryExtractors exs cfg (a, lg))), snd (tryExtractors exs cfg (a, lg)))"
  using assms
proof (induction exsO exs arbitrary: a lg rule: list_all2_induct)
  case Nil
  then show ?case by simp
next
  case (Cons exO exsO ex exs)
  show ?case
  proof (cases "ex cfg a")
    case (Returned b a')
    then show ?thesis using Cons.hyps(1) Cons.IH[of a' lg] by simp
  next
    case (Threw e a')
    then show ?thesis using Cons.hyps(1) Cons.IH[of a' "lg @ [e]"] by simp
  qed
qed

lemma registry_own_key:
  "cFile cfg \<notin> set objectPrototypeNames \<Longrightarrow>
   list_all2 (\<lambda>exO ex. \<forall>a. exO cfg (asObject a) = map_outcome asObject (ex cfg a))
     codeActionEtractorsOnObject codeActionEtractors"
  by (simp add: codeActionEtractorsOnObject_def codeActionEtractors_def
      own_key_simpleTypeMismatches own_key_didYouMeanAction own_key_addUndefinedRecordFields
      own_key_simpleConversion own_key_applyUncurried own_key_simpleAddMissingCases)

lemma forEachLine_own_key:
  assumes "filePath c \<notin> set objectPrototypeNames"
  shows "forEachLine codeActionEtractorsOnObject c i ls (asObject a, lg)
    = (asObject (fst (forEachLine codeActionEtractors c i ls (a, lg))),
       snd (forEachLine codeActionEtractors c i ls (a, lg)))"
proof (induction ls arbitrary: i a lg)
  case Nil
  then show ?case by simp
next
  case (Cons l ls)
  let ?cfg = "\<lparr>cLine = l, cIndex = i, cArray = diagnosticMessage c, cFile = filePath c,
           cRange = diagnosedRange c, cDiagnostic = diagnostic c\<rparr>"
  obtain a1 lg1 where s1: "tryExtractors codeActionEtractors ?cfg (a, lg) = (a1, lg1)"
    by (cases "tryExtractors codeActionEtractors ?cfg (a, lg)") auto
  have "list_all2 (\<lambda>exO ex. \<forall>a. exO ?cfg (asObject a) = map_outcome asObject (ex ?cfg a))
     codeActionEtractorsOnObject codeActionEtractors"
    by (rule registry_own_key) (simp add: assms)
  then have s2: "tryExtractors codeActionEtractorsOnObject ?cfg (asObject a, lg) = (asObject a1, lg1)"
    using tryExtractors_own_key[of ?cfg codeActionEtractorsOnObject codeActionEtractors a lg] s1
    by simp
  show ?case using Cons.IH[of "Suc i" a1 lg1] s1 s2 by simp
qed

lemma plain_object_own_key:
  "filePath c \<notin> set objectPrototypeNames \<Longrightarrow>
   findCodeActionsInDiagnosticsMessageOnObject c (asObject a, lg)
     = (asObject (fst (findCodeActionsInDiagnosticsMessage c (a, lg))),
        snd (findCodeActionsInDiagnosticsMessage c (a, lg)))"
  by (simp add: findCodeActionsInDiagnosticsMessageOnObject_def
      findCodeActionsInDiagnosticsMessage_def forEachLine_own_key)


section \<open>The dispatcher and one action per diagnostic\<close>

text \<open>
  C1. The specification has it that a diagnostic never contributes two entries to the
  accumulator, even when its message has several trigger lines, and the comment in the
  dispatcher says the same. The \<^verbatim>\<open>break\<close> of the source leaves the loop over the
  extractors only; the \<^verbatim>\<open>forEach\<close> over the lines goes on. For the message of the
  two lines "Hint: Did you mean foo" and "Hint: Did you mean bar" the dispatcher pushes
  two entries for the one diagnostic.
\<close>

theorem two_trigger_lines_give_two_actions:
  "fst (findCodeActionsInDiagnosticsMessage
          \<lparr>diagnostic = d,
           diagnosticMessage = [''Hint: Did you mean foo'', ''Hint: Did you mean bar''],
           filePath = f, diagnosedRange = r\<rparr> (Map.empty, [])) f
   = Some [\<lparr>entryRange = r,
            codeAction =
              \<lparr>title = ''Replace with '' @ [CHR 0x27] @ ''foo'' @ [CHR 0x27],
               changes = [(f, [\<lparr>teRange = r, newText = ''foo''\<rparr>])],
               diagnostics = [d], kind = ''quickfix'', isPreferred = True\<rparr>\<rparr>,
           \<lparr>entryRange = r,
            codeAction =
              \<lparr>title = ''Replace with '' @ [CHR 0x27] @ ''bar'' @ [CHR 0x27],
               changes = [(f, [\<lparr>teRange = r, newText = ''bar''\<rparr>])],
               diagnostics = [d], kind = ''quickfix'', isPreferred = True\<rparr>\<rparr>]"
  by (simp add: findCodeActionsInDiagnosticsMessage_def codeActionEtractors_def
      simpleTypeMismatches_def didYouMeanAction_def pushAction_def quickFix_def QuickFix_def
      isWordChar_def)

section \<open>The order of the extractors\<close>

text \<open>
  C2, as stated. The specification lists the extractors tried for a line as, in this
  order, identifier suggestion, record fields, type conversion, uncurried call and
  exhaustiveness, with identifier suggestion first. The registry of the dispatcher is,
  by name, the six extractors below. For the line "Hint: Did you mean foo" the
  dispatcher's loop calls the extractor for type mismatches and then the one for
  identifier suggestions, where the five of the specification tried in order give the
  call of identifier suggestion alone; for a line without any trigger it calls all six,
  type mismatch first.
\<close>

theorem identifier_suggestion_not_tried_first:
  "map extractorOf
     [SimpleTypeMismatches, DidYouMeanAction, AddUndefinedRecordFields, SimpleConversion,
      ApplyUncurried, SimpleAddMissingCases] = codeActionEtractors
   \<and> snd (fst (tryExtractors
        (map observed
           [SimpleTypeMismatches, DidYouMeanAction, AddUndefinedRecordFields, SimpleConversion,
            ApplyUncurried, SimpleAddMissingCases])
        (exampleConfig hintMessage 0 exampleRange) ((Map.empty, []), [])))
     = [SimpleTypeMismatches, DidYouMeanAction]
   \<and> snd (fst (tryExtractors
        (map observed
           [SimpleTypeMismatches, DidYouMeanAction, AddUndefinedRecordFields, SimpleConversion,
            ApplyUncurried, SimpleAddMissingCases])
        (exampleConfig hintMessage 0 exampleRange) ((Map.empty, []), [])))
     \<noteq> triedInOrder
        [DidYouMeanAction, AddUndefinedRecordFields, SimpleConversion, ApplyUncurried,
         SimpleAddMissingCases] (exampleConfig hintMessage 0 exampleRange) Map.empty
   \<and> snd (fst (tryExtractors
        (map observed
           [SimpleTypeMismatches, DidYouMeanAction, AddUndefinedRecordFields, SimpleConversion,
            ApplyUncurried, SimpleAddMissingCases])
        (exampleConfig noTriggerMessage 0 exampleRange) ((Map.empty, []), [])))
     = [SimpleTypeMismatches, DidYouMeanAction, AddUndefinedRecordFields, SimpleConversion,
        ApplyUncurried, SimpleAddMissingCases]
   \<and> snd (fst (tryExtractors
        (map observed
           [SimpleTypeMismatches, DidYouMeanAction, AddUndefinedRecordFields, SimpleConversion,
            ApplyUncurried, SimpleAddMissingCases])
        (exampleConfig noTriggerMessage 0 exampleRange) ((Map.empty, []), [])))
     \<noteq> triedInOrder
        [DidYouMeanAction, AddUndefinedRecordFields, SimpleConversion, ApplyUncurried,
         SimpleAddMissingCases] (exampleConfig noTriggerMessage 0 exampleRange) Map.empty"
  by (simp add: codeActionEtractors_def observed_def hint_eval hint_no_type_mismatch
      noTrigger_eval)

text \<open>
  C2, amended. The registry is, by name and in this order, type mismatch, identifier
  suggestion, record fields, type conversion, uncurried call, exhaustiveness. For every
  line, whatever the accumulator and the log, the dispatcher's loop over the observed
  registry leaves the accumulator of the loop over the registry, and the calls it has
  made are these extractors tried in order: the first \<open>k\<close> of the list for some \<open>k\<close>
  from 1 to 6, where none of the first \<open>k - 1\<close> reports a match, and the last one called
  reports a match whenever fewer than six were called.
\<close>

theorem extractors_tried_in_registry_order:
  fixes cfg :: codeActionExtractorConfig and acc :: filesCodeActions and logged :: "error list"
  defines "order \<equiv>
     [SimpleTypeMismatches, DidYouMeanAction, AddUndefinedRecordFields, SimpleConversion,
      ApplyUncurried, SimpleAddMissingCases]"
  defines "run \<equiv> fst (tryExtractors (map observed order) cfg ((acc, []), logged))"
  shows "map extractorOf order = codeActionEtractors
       \<and> fst run = fst (tryExtractors codeActionEtractors cfg (acc, logged))
       \<and> snd run = triedInOrder order cfg acc
       \<and> (\<exists>k. 0 < k \<and> k \<le> 6 \<and> snd run = take k order
            \<and> (\<forall>i. i < k - 1 \<longrightarrow> \<not> didFind (extractorOf (order ! i) cfg acc))
            \<and> (k < 6 \<longrightarrow> didFind (extractorOf (order ! (k - 1)) cfg acc)))"
proof -
  have registry: "map extractorOf order = codeActionEtractors"
    by (simp add: order_def codeActionEtractors_def)
  have accumulator: "fst run = fst (tryExtractors codeActionEtractors cfg (acc, logged))"
    unfolding run_def using observed_accumulator[of order cfg acc "[]" logged]
    by (simp only: registry)
  have calls: "snd run = triedInOrder order cfg acc"
    unfolding run_def using observed_calls[of order cfg acc "[]" logged] by simp
  have "order \<noteq> []" "length order = 6" by (simp_all add: order_def)
  with triedInOrder_prefix[of order cfg acc] calls
  have "\<exists>k. 0 < k \<and> k \<le> 6 \<and> snd run = take k order
            \<and> (\<forall>i. i < k - 1 \<longrightarrow> \<not> didFind (extractorOf (order ! i) cfg acc))
            \<and> (k < 6 \<longrightarrow> didFind (extractorOf (order ! (k - 1)) cfg acc))"
    by simp
  with registry accumulator calls show ?thesis by blast
qed

text \<open>
  On the hint two extractors are called: the one for type mismatches, which reports no
  match, and the one for identifier suggestions, which reports one.
\<close>

theorem extractors_tried_in_registry_order_witness:
  "snd (fst (tryExtractors
        (map observed
           [SimpleTypeMismatches, DidYouMeanAction, AddUndefinedRecordFields, SimpleConversion,
            ApplyUncurried, SimpleAddMissingCases])
        (exampleConfig hintMessage 0 exampleRange) ((Map.empty, []), [])))
     = [SimpleTypeMismatches, DidYouMeanAction]
   \<and> \<not> didFind (simpleTypeMismatches (exampleConfig hintMessage 0 exampleRange) Map.empty)
   \<and> didFind (didYouMeanAction (exampleConfig hintMessage 0 exampleRange) Map.empty)"
  using extractors_tried_in_registry_order
    [of "exampleConfig hintMessage 0 exampleRange" Map.empty "[]"]
  by (simp add: hint_eval hint_no_type_mismatch)

section \<open>Exceptions of an extractor\<close>




section \<open>Identifier suggestion: the action\<close>

text \<open>
  C3. A line that starts with the marker "Hint: Did you mean", followed by a blank and a
  token of letters, digits and underscores (the token ends at the end of the line or at
  the first other character), gives one action whose single edit replaces the diagnosed
  range with that token. When no such character follows the blank, or when the marker is
  not followed by a blank anywhere in the line, the suggestion cannot be extracted, no
  action is produced and the accumulator is as before.
\<close>

theorem didYouMeanAction_suggestion:
  assumes "rest = [] \<or> \<not> isWordChar (hd rest)"
  shows "(tok \<noteq> [] \<and> list_all isWordChar tok
            \<and> cLine cfg = ''Hint: Did you mean '' @ tok @ rest \<longrightarrow>
          didYouMeanAction cfg acc =
            Returned True
              (pushAction acc (cFile cfg) (cRange cfg)
                 (quickFix cfg (''Replace with '' @ [CHR 0x27] @ tok @ [CHR 0x27])
                    [\<lparr>teRange = cRange cfg, newText = tok\<rparr>])))
       \<and> (cLine cfg = ''Hint: Did you mean '' @ rest \<longrightarrow>
          didYouMeanAction cfg acc = Returned False acc)
       \<and> (startsWith (cLine cfg) ''Hint: Did you mean''
            \<and> \<not> includesStr (cLine cfg) ''Did you mean '' \<longrightarrow>
          didYouMeanAction cfg acc = Returned False acc)"
proof (intro conjI impI)
  assume "tok \<noteq> [] \<and> list_all isWordChar tok
    \<and> cLine cfg = ''Hint: Did you mean '' @ tok @ rest"
  then show "didYouMeanAction cfg acc =
      Returned True
        (pushAction acc (cFile cfg) (cRange cfg)
           (quickFix cfg (''Replace with '' @ [CHR 0x27] @ tok @ [CHR 0x27])
              [\<lparr>teRange = cRange cfg, newText = tok\<rparr>]))"
    using assms by (simp add: didYouMeanAction_def takeWhile_token)
next
  assume "cLine cfg = ''Hint: Did you mean '' @ rest"
  then show "didYouMeanAction cfg acc = Returned False acc"
    using assms takeWhile_token[of isWordChar "[]" rest]
    by (simp add: didYouMeanAction_def)
next
  assume "startsWith (cLine cfg) ''Hint: Did you mean''
    \<and> \<not> includesStr (cLine cfg) ''Did you mean ''"
  then show "didYouMeanAction cfg acc = Returned False acc"
    by (simp add: didYouMeanAction_def matchDidYouMean_absent)
qed

text \<open>
  The line "Hint: Did you mean someIdent" of the specification, and the marker alone.
\<close>

theorem didYouMeanAction_suggestion_witness:
  "didYouMeanAction (exampleConfig [''Hint: Did you mean someIdent''] 0 exampleRange) Map.empty =
     Returned True
       [''a.res'' \<mapsto>
          [\<lparr>entryRange = exampleRange,
            codeAction =
              \<lparr>title = ''Replace with '' @ [CHR 0x27] @ ''someIdent'' @ [CHR 0x27],
               changes = [(''a.res'', [\<lparr>teRange = exampleRange, newText = ''someIdent''\<rparr>])],
               diagnostics = [exampleDiagnostic], kind = ''quickfix'', isPreferred = True\<rparr>\<rparr>]]
   \<and> didYouMeanAction (exampleConfig [''Hint: Did you mean''] 0 exampleRange) Map.empty =
     Returned False Map.empty"
  using didYouMeanAction_suggestion [of "[]" "''someIdent''"
      "exampleConfig [''Hint: Did you mean someIdent''] 0 exampleRange" Map.empty]
    didYouMeanAction_suggestion [of "[]" "[]"
      "exampleConfig [''Hint: Did you mean''] 0 exampleRange" Map.empty]
  by (simp add: exampleConfig_def pushAction_def quickFix_def QuickFix_def isWordChar_def)

section \<open>Missing record fields: the action\<close>

text \<open>
  C5. For the line "Some record fields are undefined: foo bar", with no line after it in
  the message and a diagnosed range that starts and ends on the same line, the extractor
  produces one action with exactly one edit: a zero-width edit one character before the
  end of the range, where the closing brace stands, that inserts
  ", foo: assert false, bar: assert false".
\<close>

theorem addUndefinedRecordFields_single_line:
  assumes "cLine cfg = ''Some record fields are undefined: foo bar''"
    and "drop (cIndex cfg + 1) (cArray cfg) = []"
    and "line (rangeStart (cRange cfg)) = line (rangeEnd (cRange cfg))"
  shows "addUndefinedRecordFields cfg acc =
     Returned True
       (pushAction acc (cFile cfg) (cRange cfg)
          (quickFix cfg ''Add missing record fields''
             [\<lparr>teRange =
                 \<lparr>rangeStart = \<lparr>line = line (rangeEnd (cRange cfg)),
                                character = character (rangeEnd (cRange cfg)) - 1\<rparr>,
                  rangeEnd = \<lparr>line = line (rangeEnd (cRange cfg)),
                              character = character (rangeEnd (cRange cfg)) - 1\<rparr>\<rparr>,
               newText = '', foo: assert false, bar: assert false''\<rparr>]))"
proof -
  have names: "firstLineFieldNames ''Some record fields are undefined: foo bar''
      = Some [''foo'', ''bar'']"
    by (simp add: firstLineFieldNames_def trim_def isWhiteSpace_def splitStr_def nthOpt_def)
  show ?thesis
    using assms
    by (simp add: addUndefinedRecordFields_def names recordFieldsText_def
        insertBeforeEndingChar_def Let_def)
qed

text \<open>The message of the specification, over a range on line 3.\<close>

theorem addUndefinedRecordFields_single_line_witness:
  "addUndefinedRecordFields
     (exampleConfig [''Some record fields are undefined: foo bar''] 0 exampleRange) Map.empty =
     Returned True
       [''a.res'' \<mapsto>
          [\<lparr>entryRange = exampleRange,
            codeAction =
              \<lparr>title = ''Add missing record fields'',
               changes =
                 [(''a.res'',
                   [\<lparr>teRange = \<lparr>rangeStart = \<lparr>line = 3, character = 19\<rparr>,
                                 rangeEnd = \<lparr>line = 3, character = 19\<rparr>\<rparr>,
                     newText = '', foo: assert false, bar: assert false''\<rparr>])],
               diagnostics = [exampleDiagnostic], kind = ''quickfix'', isPreferred = True\<rparr>\<rparr>]]"
  using addUndefinedRecordFields_single_line
    [of "exampleConfig [''Some record fields are undefined: foo bar''] 0 exampleRange" Map.empty]
  by (simp add: exampleConfig_def exampleRange_def pushAction_def quickFix_def QuickFix_def)

text \<open>
  C6. On the trigger line, when the line lists at least one field and the diagnosed range
  ends on another line than it starts, with its closing delimiter at column \<open>c\<close> (the
  range ends one character after it): the extractor produces one action whose single
  edit inserts the text at the closing delimiter. Read from the start of the delimiter's
  line, that is with the \<open>c\<close> characters of indentation in front of it, the text is
  the layout of the specification: each field of the trigger line and of the lines after
  it on a line of its own, padded to column \<open>c + 2\<close>, with the value "assert false"
  and a trailing comma, and then \<open>c\<close> blanks that put the closing delimiter back at
  its column on the line after the fields.
\<close>

theorem addUndefinedRecordFields_multi_line:
  fixes cfg :: codeActionExtractorConfig and c :: nat
  defines "p \<equiv> \<lparr>line = line (rangeEnd (cRange cfg)), character = int c\<rparr>"
    and "fieldNames \<equiv> \<lambda>names.
           names @ concat (map (\<lambda>l. splitStr (trim l) '' '') (drop (cIndex cfg + 1) (cArray cfg)))"
  assumes "startsWith (cLine cfg) ''Some record fields are undefined:''"
    and "firstLineFieldNames (cLine cfg) = Some names"
    and "line (rangeStart (cRange cfg)) \<noteq> line (rangeEnd (cRange cfg))"
    and "character (rangeEnd (cRange cfg)) = int c + 1"
  shows "addUndefinedRecordFields cfg acc =
            Returned True
              (pushAction acc (cFile cfg) (cRange cfg)
                 (quickFix cfg ''Add missing record fields''
                    [\<lparr>teRange = \<lparr>rangeStart = p, rangeEnd = p\<rparr>,
                      newText = recordFieldsText (cRange cfg) (fieldNames names)\<rparr>]))
          \<and> replicate c (CHR '' '') @ recordFieldsText (cRange cfg) (fieldNames names)
              = multilineRecordLayout c (fieldNames names)"
proof -
  let ?fs = "fieldNames names"
  have "names \<noteq> []"
    using assms(4) splitGo_nonempty by (auto simp: firstLineFieldNames_def splitStr_def)
  then obtain f rest where fs: "?fs = f # rest"
    by (cases names) (auto simp: fieldNames_def)
  have pad: "arrayFromJoinSpace (character (rangeEnd (cRange cfg)) + 2) = replicate (c + 2) (CHR '' '')"
    "arrayFromJoinSpace (character (rangeEnd (cRange cfg))) = replicate c (CHR '' '')"
    using assms(6) by (simp_all add: arrayFromJoinSpace_def nat_add_distrib)
  have layout: "replicate c (CHR '' '') @ recordFieldsText (cRange cfg) ?fs = multilineRecordLayout c ?fs"
    using assms(5)
    by (simp add: recordFieldsText_def multilineRecordLayout_def fs pad multilineFields_Suc
        replicate_app_Cons_same)
  have "addUndefinedRecordFields cfg acc =
            Returned True
              (pushAction acc (cFile cfg) (cRange cfg)
                 (quickFix cfg ''Add missing record fields''
                    [\<lparr>teRange = \<lparr>rangeStart = p, rangeEnd = p\<rparr>,
                      newText = recordFieldsText (cRange cfg) ?fs\<rparr>]))"
    using assms(3,4,6)
    by (simp add: addUndefinedRecordFields_def Let_def insertBeforeEndingChar_def p_def fieldNames_def)
  with layout show ?thesis by blast
qed

text \<open>
  Three fields, two of them on the trigger line, and a closing delimiter at column 2.
\<close>

theorem addUndefinedRecordFields_multi_line_witness:
  "addUndefinedRecordFields (exampleConfig multilineFieldsMessage 0 exampleMultilineRange) Map.empty =
     Returned True
       [''a.res'' \<mapsto>
          [\<lparr>entryRange = exampleMultilineRange,
            codeAction =
              \<lparr>title = ''Add missing record fields'',
               changes =
                 [(''a.res'',
                   [\<lparr>teRange = \<lparr>rangeStart = \<lparr>line = 5, character = 2\<rparr>,
                                 rangeEnd = \<lparr>line = 5, character = 2\<rparr>\<rparr>,
                     newText = ''  foo: assert false,'' @ ''\<newline>''
                       @ ''    bar: assert false,'' @ ''\<newline>''
                       @ ''    baz: assert false,'' @ ''\<newline>''
                       @ ''  ''\<rparr>])],
               diagnostics = [exampleDiagnostic], kind = ''quickfix'', isPreferred = True\<rparr>\<rparr>]]
   \<and> multilineRecordLayout 2 [''foo'', ''bar'', ''baz''] =
       ''    foo: assert false,'' @ ''\<newline>''
       @ ''    bar: assert false,'' @ ''\<newline>''
       @ ''    baz: assert false,'' @ ''\<newline>''
       @ ''  ''"
  using addUndefinedRecordFields_multi_line
    [of "exampleConfig multilineFieldsMessage 0 exampleMultilineRange" "[''foo'', ''bar'']" 2 Map.empty]
  by (simp add: exampleConfig_def multilineFieldsMessage_def exampleMultilineRange_def
      firstLineFieldNames_def trim_def isWhiteSpace_def splitStr_def
      nthOpt_def recordFieldsText_def arrayFromJoinSpace_def insertBeforeEndingChar_def
      pushAction_def quickFix_def QuickFix_def multilineRecordLayout_def Let_def eval_nat_numeral)

section \<open>Type conversion: the action\<close>

text \<open>
  C7. For a line "You can convert A to B with fn." where A and B consist of word
  characters and fn of word characters and dots, the extractor produces one action with
  exactly two zero-width edits: the first inserts fn followed by an opening parenthesis
  at the start of the diagnosed range, the second inserts a closing parenthesis at its
  end. When the start of the range equals its end, the position of the first edit is
  one character before the start.
\<close>

theorem simpleConversion_wraps_range:
  assumes "list_all isWordChar A" "list_all isWordChar B" "list_all isWordOrDot fn"
    and "cLine cfg = ''You can convert '' @ A @ '' to '' @ B @ '' with '' @ fn @ ''.''"
  shows "simpleConversion cfg acc =
     Returned True
       (pushAction acc (cFile cfg) (cRange cfg)
          (quickFix cfg (''Convert '' @ A @ '' to '' @ B @ '' with '' @ fn)
             [\<lparr>teRange =
                 \<lparr>rangeStart =
                    \<lparr>line = line (rangeStart (cRange cfg)),
                     character = character (rangeStart (cRange cfg))
                       - (if rangeStart (cRange cfg) = rangeEnd (cRange cfg) then 1 else 0)\<rparr>,
                  rangeEnd =
                    \<lparr>line = line (rangeStart (cRange cfg)),
                     character = character (rangeStart (cRange cfg))
                       - (if rangeStart (cRange cfg) = rangeEnd (cRange cfg) then 1 else 0)\<rparr>\<rparr>,
               newText = fn @ ''(''\<rparr>,
              \<lparr>teRange = \<lparr>rangeStart = rangeEnd (cRange cfg), rangeEnd = rangeEnd (cRange cfg)\<rparr>,
               newText = '')''\<rparr>]))"
proof -
  have notw: "\<not> isWordChar (CHR '' '')" by (simp add: isWordChar_def)
  have tA: "takeWhile isWordChar (A @ CHR '' '' # xs) = A"
    "dropWhile isWordChar (A @ CHR '' '' # xs) = CHR '' '' # xs" for xs
    using takeWhile_token[OF assms(1), of "CHR '' '' # xs"]
      dropWhile_token[OF assms(1), of "CHR '' '' # xs"] notw by simp_all
  have tB: "takeWhile isWordChar (B @ CHR '' '' # xs) = B"
    "dropWhile isWordChar (B @ CHR '' '' # xs) = CHR '' '' # xs" for xs
    using takeWhile_token[OF assms(2), of "CHR '' '' # xs"]
      dropWhile_token[OF assms(2), of "CHR '' '' # xs"] notw by simp_all
  have m: "matchConversion (cLine cfg) = Some (A, B, fn)"
    using assms(3) by (simp add: assms(4) matchConversionAt_def tA tB isLineTerminator_def)
  have pos: "(line (rangeStart (cRange cfg)) = line (rangeEnd (cRange cfg)) \<and>
      character (rangeStart (cRange cfg)) = character (rangeEnd (cRange cfg))) =
      (rangeStart (cRange cfg) = rangeEnd (cRange cfg))"
    by (auto intro: Position.equality)
  have sw: "startsWith (cLine cfg) ''You can convert ''"
    by (simp add: assms(4))
  show ?thesis
    using m sw
    by (simp add: simpleConversion_def wrapRangeInText_def Let_def pos Position_eta)
qed

text \<open>
  The line of the specification, over a range of twelve characters and over a single
  point.
\<close>

theorem simpleConversion_wraps_range_witness:
  "simpleConversion (exampleConfig conversionMessage 0 exampleRange) Map.empty =
     Returned True
       [''a.res'' \<mapsto>
          [\<lparr>entryRange = exampleRange,
            codeAction =
              \<lparr>title = ''Convert int to float with Belt.Float.fromInt'',
               changes =
                 [(''a.res'',
                   [\<lparr>teRange = \<lparr>rangeStart = \<lparr>line = 3, character = 8\<rparr>,
                                 rangeEnd = \<lparr>line = 3, character = 8\<rparr>\<rparr>,
                     newText = ''Belt.Float.fromInt(''\<rparr>,
                    \<lparr>teRange = \<lparr>rangeStart = \<lparr>line = 3, character = 20\<rparr>,
                                 rangeEnd = \<lparr>line = 3, character = 20\<rparr>\<rparr>,
                     newText = '')''\<rparr>])],
               diagnostics = [exampleDiagnostic], kind = ''quickfix'', isPreferred = True\<rparr>\<rparr>]]
   \<and> simpleConversion (exampleConfig conversionMessage 0 examplePoint) Map.empty =
     Returned True
       [''a.res'' \<mapsto>
          [\<lparr>entryRange = examplePoint,
            codeAction =
              \<lparr>title = ''Convert int to float with Belt.Float.fromInt'',
               changes =
                 [(''a.res'',
                   [\<lparr>teRange = \<lparr>rangeStart = \<lparr>line = 7, character = 11\<rparr>,
                                 rangeEnd = \<lparr>line = 7, character = 11\<rparr>\<rparr>,
                     newText = ''Belt.Float.fromInt(''\<rparr>,
                    \<lparr>teRange = \<lparr>rangeStart = \<lparr>line = 7, character = 12\<rparr>,
                                 rangeEnd = \<lparr>line = 7, character = 12\<rparr>\<rparr>,
                     newText = '')''\<rparr>])],
               diagnostics = [exampleDiagnostic], kind = ''quickfix'', isPreferred = True\<rparr>\<rparr>]]"
  using simpleConversion_wraps_range
    [of "''int''" "''float''" "''Belt.Float.fromInt''"
      "exampleConfig conversionMessage 0 exampleRange" Map.empty]
    simpleConversion_wraps_range
    [of "''int''" "''float''" "''Belt.Float.fromInt''"
      "exampleConfig conversionMessage 0 examplePoint" Map.empty]
  by (simp add: exampleConfig_def conversionMessage_def exampleRange_def examplePoint_def
      isWordChar_def isWordOrDot_def pushAction_def quickFix_def QuickFix_def)

section \<open>Missing match cases: the action\<close>

text \<open>
  C8. On the trigger line of the exhaustiveness extractor: when the lines after it join
  to "(`AnotherValue|`Third|`Fourth)", the extractor produces one action whose single
  edit, one character before the end of the range where the closing delimiter stands,
  inserts exactly the three arms "| #AnotherValue => assert false",
  "| #Third => assert false" and "| #Fourth => assert false", one per line, the second
  and the third padded with as many blanks as the column of the closing delimiter, and
  the same padding on a last line for the delimiter. When what is left of the joined and
  trimmed lines after their first and last character are removed (the outer
  parentheses) contains an opening parenthesis, the extractor reports no match and the
  accumulator is as before.
\<close>

theorem simpleAddMissingCases_three_arms:
  fixes cfg :: codeActionExtractorConfig
  defines "p \<equiv> \<lparr>line = line (rangeEnd (cRange cfg)),
                  character = character (rangeEnd (cRange cfg)) - 1\<rparr>"
    and "pad \<equiv> replicate (nat (character (rangeEnd (cRange cfg)) - 1)) (CHR '' '')"
  assumes "startsWith (cLine cfg) ''You forgot to handle a possible case here, for example:''"
  shows "(joinStr (drop (cIndex cfg + 1) (cArray cfg)) [] = ''(`AnotherValue|`Third|`Fourth)'' \<longrightarrow>
          simpleAddMissingCases cfg acc =
            Returned True
              (pushAction acc (cFile cfg) (cRange cfg)
                 (quickFix cfg ''Insert missing cases''
                    [\<lparr>teRange = \<lparr>rangeStart = p, rangeEnd = p\<rparr>,
                      newText = ''| #AnotherValue => assert false'' @ ''\<newline>''
                        @ pad @ ''| #Third => assert false'' @ ''\<newline>''
                        @ pad @ ''| #Fourth => assert false'' @ ''\<newline>''
                        @ pad\<rparr>])))
       \<and> (trim (joinStr (drop (cIndex cfg + 1) (cArray cfg)) []) = a # body @ [b]
            \<and> includesStr body ''('' \<longrightarrow>
          simpleAddMissingCases cfg acc = Returned False acc)"
proof (intro conjI impI)
  assume j: "joinStr (drop (cIndex cfg + 1) (cArray cfg)) [] = ''(`AnotherValue|`Third|`Fourth)''"
  have t: "trim ''(`AnotherValue|`Third|`Fourth)'' = ''(`AnotherValue|`Third|`Fourth)''"
    by (simp add: trim_def isWhiteSpace_def)
  have s: "sliceStr ''(`AnotherValue|`Third|`Fourth)'' 1 29 = ''`AnotherValue|`Third|`Fourth''"
    by (simp add: sliceStr_def)
  have sp: "splitStr ''`AnotherValue|`Third|`Fourth'' ''|''
      = [''`AnotherValue'', ''`Third'', ''`Fourth'']"
    by (simp add: splitStr_def)
  have tr: "transformMatchPattern ''`AnotherValue'' = Some ''#AnotherValue''"
    "transformMatchPattern ''`Third'' = Some ''#Third''"
    "transformMatchPattern ''`Fourth'' = Some ''#Fourth''"
    by simp_all
  have inc: "\<not> includesStr ''`AnotherValue|`Third|`Fourth'' ''(''"
    "includesStr ''`AnotherValue|`Third|`Fourth'' ''|''"
    by simp_all
  show "simpleAddMissingCases cfg acc =
            Returned True
              (pushAction acc (cFile cfg) (cRange cfg)
                 (quickFix cfg ''Insert missing cases''
                    [\<lparr>teRange = \<lparr>rangeStart = p, rangeEnd = p\<rparr>,
                      newText = ''| #AnotherValue => assert false'' @ ''\<newline>''
                        @ pad @ ''| #Third => assert false'' @ ''\<newline>''
                        @ pad @ ''| #Fourth => assert false'' @ ''\<newline>''
                        @ pad\<rparr>]))"
    using assms(3) j
    by (simp add: simpleAddMissingCases_def t s sp tr inc Let_def insertBeforeEndingChar_def
        arrayFromJoinSpace_replicate p_def pad_def del: transformMatchPattern.simps)
next
  assume "trim (joinStr (drop (cIndex cfg + 1) (cArray cfg)) []) = a # body @ [b]
            \<and> includesStr body ''(''"
  then show "simpleAddMissingCases cfg acc = Returned False acc"
    using assms(3) sliceStr_strip[of a body b]
    by (simp add: simpleAddMissingCases_def Let_def del: transformMatchPattern.simps)
qed

text \<open>
  The example of the specification, and an example with a tuple payload, with the closing
  delimiter at column 2.
\<close>

theorem simpleAddMissingCases_three_arms_witness:
  "simpleAddMissingCases (exampleConfig missingCasesMessage 0 exampleMultilineRange) Map.empty =
     Returned True
       [''a.res'' \<mapsto>
          [\<lparr>entryRange = exampleMultilineRange,
            codeAction =
              \<lparr>title = ''Insert missing cases'',
               changes =
                 [(''a.res'',
                   [\<lparr>teRange = \<lparr>rangeStart = \<lparr>line = 5, character = 2\<rparr>,
                                 rangeEnd = \<lparr>line = 5, character = 2\<rparr>\<rparr>,
                     newText = ''| #AnotherValue => assert false'' @ ''\<newline>''
                       @ ''  | #Third => assert false'' @ ''\<newline>''
                       @ ''  | #Fourth => assert false'' @ ''\<newline>''
                       @ ''  ''\<rparr>])],
               diagnostics = [exampleDiagnostic], kind = ''quickfix'', isPreferred = True\<rparr>\<rparr>]]
   \<and> simpleAddMissingCases (exampleConfig tuplePayloadMessage 0 exampleMultilineRange) Map.empty =
     Returned False Map.empty"
  using simpleAddMissingCases_three_arms
    [of "exampleConfig missingCasesMessage 0 exampleMultilineRange" Map.empty]
    simpleAddMissingCases_three_arms
    [of "exampleConfig tuplePayloadMessage 0 exampleMultilineRange" _ "CHR ''(''"
      "''Some (_, _)|None''" "CHR '')''"]
  by (simp add: exampleConfig_def missingCasesMessage_def tuplePayloadMessage_def
      exampleMultilineRange_def trim_def isWhiteSpace_def
      pushAction_def quickFix_def QuickFix_def eval_nat_numeral)

section \<open>Normalising a case\<close>

text \<open>
  C9. The specification has it that a case with more than one blank, and a case with a
  brace, is rejected. The source counts the blanks and rejects when there are more than
  two, where its comment says more than one, and it looks for the opening brace only:
  the case "A b c", with two blanks, is normalised to "A(b)", and the case "Two}" is
  kept as it is. From the example line "(A b c|D)" the extractor makes the arms for
  "A(b)" and "D".
\<close>

theorem transformMatchPattern_two_blanks_accepted:
  "transformMatchPattern ''A b c'' = Some ''A(b)''
   \<and> transformMatchPattern ''Two}'' = Some ''Two}''
   \<and> simpleAddMissingCases (exampleConfig twoBlanksMessage 0 exampleMultilineRange) Map.empty =
     Returned True
       [''a.res'' \<mapsto>
          [\<lparr>entryRange = exampleMultilineRange,
            codeAction =
              \<lparr>title = ''Insert missing cases'',
               changes =
                 [(''a.res'',
                   [\<lparr>teRange = \<lparr>rangeStart = \<lparr>line = 5, character = 2\<rparr>,
                                 rangeEnd = \<lparr>line = 5, character = 2\<rparr>\<rparr>,
                     newText = ''| A(b) => assert false'' @ ''\<newline>''
                       @ ''  | D => assert false'' @ ''\<newline>''
                       @ ''  ''\<rparr>])],
               diagnostics = [exampleDiagnostic], kind = ''quickfix'', isPreferred = True\<rparr>\<rparr>]]"
  by (simp add: splitStr_def simpleAddMissingCases_def exampleConfig_def twoBlanksMessage_def
      exampleMultilineRange_def trim_def isWhiteSpace_def sliceStr_def Let_def
      arrayFromJoinSpace_def insertBeforeEndingChar_def pushAction_def quickFix_def QuickFix_def
      eval_nat_numeral)

section \<open>Type mismatch: the action\<close>

text \<open>
  C10. On a line that starts with "This has type:", let the actual type and the wanted
  type be the two fragments after normalisation. When the actual type is "option<"
  followed by the wanted type and ">", the extractor produces one action that wraps the
  range in "switch " and " { | None => d | Some(v) => v }", where d is "-" in double
  quotes for string, false for bool, -1 for int, -1. for float and "assert false" for
  any other wanted type. When the wanted type is "option<" followed by the actual type
  and ">", it produces one action that wraps the range in "Some(" and ")". In every
  other case it reports no match and the accumulator is as before.
\<close>

theorem simpleTypeMismatches_option:
  fixes cfg :: codeActionExtractorConfig
  defines "thisHasType \<equiv> extractTypename (thisHasTypeArr cfg)"
    and "somewhereWanted \<equiv> extractTypename (somewhereWantedArr cfg)"
  assumes "startsWith (cLine cfg) ''This has type:''"
  shows "(thisHasType = ''option<'' @ somewhereWanted @ ''>'' \<longrightarrow>
          (\<exists>d. simpleTypeMismatches cfg acc =
                 Returned True
                   (pushAction acc (cFile cfg) (cRange cfg)
                      (quickFix cfg ''Unwrap optional value''
                         (wrapRangeInText (cRange cfg) ''switch ''
                            ('' { | None => '' @ d @ '' | Some(v) => v }''))))
             \<and> (somewhereWanted = ''string'' \<longrightarrow> d = [CHR 0x22, CHR ''-'', CHR 0x22])
             \<and> (somewhereWanted = ''bool'' \<longrightarrow> d = ''false'')
             \<and> (somewhereWanted = ''int'' \<longrightarrow> d = ''-1'')
             \<and> (somewhereWanted = ''float'' \<longrightarrow> d = ''-1.'')
             \<and> (somewhereWanted \<notin> {''string'', ''bool'', ''int'', ''float''} \<longrightarrow>
                  d = ''assert false'')))
       \<and> (somewhereWanted = ''option<'' @ thisHasType @ ''>'' \<longrightarrow>
          simpleTypeMismatches cfg acc =
            Returned True
              (pushAction acc (cFile cfg) (cRange cfg)
                 (quickFix cfg ''Wrap value in Some''
                    (wrapRangeInText (cRange cfg) ''Some('' '')''))))
       \<and> (thisHasType \<noteq> ''option<'' @ somewhereWanted @ ''>''
            \<and> somewhereWanted \<noteq> ''option<'' @ thisHasType @ ''>'' \<longrightarrow>
          simpleTypeMismatches cfg acc = Returned False acc)"
proof (intro conjI impI)
  assume "thisHasType = ''option<'' @ somewhereWanted @ ''>''"
  then show "\<exists>d. simpleTypeMismatches cfg acc =
                 Returned True
                   (pushAction acc (cFile cfg) (cRange cfg)
                      (quickFix cfg ''Unwrap optional value''
                         (wrapRangeInText (cRange cfg) ''switch ''
                            ('' { | None => '' @ d @ '' | Some(v) => v }''))))
             \<and> (somewhereWanted = ''string'' \<longrightarrow> d = [CHR 0x22, CHR ''-'', CHR 0x22])
             \<and> (somewhereWanted = ''bool'' \<longrightarrow> d = ''false'')
             \<and> (somewhereWanted = ''int'' \<longrightarrow> d = ''-1'')
             \<and> (somewhereWanted = ''float'' \<longrightarrow> d = ''-1.'')
             \<and> (somewhereWanted \<notin> {''string'', ''bool'', ''int'', ''float''} \<longrightarrow>
                  d = ''assert false'')"
    using assms(3) unfolding thisHasType_def somewhereWanted_def
    by (intro exI[of _ "defaultValue (extractTypename (somewhereWantedArr cfg))"])
       (simp add: simpleTypeMismatches_def Let_def defaultValue_def)
next
  assume w: "somewhereWanted = ''option<'' @ thisHasType @ ''>''"
  then have "thisHasType \<noteq> ''option<'' @ somewhereWanted @ ''>''"
    using option_wrap_exclusive[of thisHasType somewhereWanted] by blast
  then show "simpleTypeMismatches cfg acc =
            Returned True
              (pushAction acc (cFile cfg) (cRange cfg)
                 (quickFix cfg ''Wrap value in Some''
                    (wrapRangeInText (cRange cfg) ''Some('' '')'')))"
    using assms(3) w unfolding thisHasType_def somewhereWanted_def
    by (simp add: simpleTypeMismatches_def Let_def)
next
  assume "thisHasType \<noteq> ''option<'' @ somewhereWanted @ ''>''
            \<and> somewhereWanted \<noteq> ''option<'' @ thisHasType @ ''>''"
  then show "simpleTypeMismatches cfg acc = Returned False acc"
    using assms(3) unfolding thisHasType_def somewhereWanted_def
    by (auto simp add: simpleTypeMismatches_def Let_def)
qed

text \<open>
  The two examples of the specification: string where an option of string is wanted, and
  the reverse.
\<close>

theorem simpleTypeMismatches_option_witness:
  "simpleTypeMismatches (exampleConfig optionWrapMessage 0 exampleRange) Map.empty =
     Returned True
       [''a.res'' \<mapsto>
          [\<lparr>entryRange = exampleRange,
            codeAction =
              \<lparr>title = ''Wrap value in Some'',
               changes =
                 [(''a.res'',
                   [\<lparr>teRange = \<lparr>rangeStart = \<lparr>line = 3, character = 8\<rparr>,
                                 rangeEnd = \<lparr>line = 3, character = 8\<rparr>\<rparr>,
                     newText = ''Some(''\<rparr>,
                    \<lparr>teRange = \<lparr>rangeStart = \<lparr>line = 3, character = 20\<rparr>,
                                 rangeEnd = \<lparr>line = 3, character = 20\<rparr>\<rparr>,
                     newText = '')''\<rparr>])],
               diagnostics = [exampleDiagnostic], kind = ''quickfix'', isPreferred = True\<rparr>\<rparr>]]
   \<and> simpleTypeMismatches (exampleConfig optionUnwrapMessage 0 exampleRange) Map.empty =
     Returned True
       [''a.res'' \<mapsto>
          [\<lparr>entryRange = exampleRange,
            codeAction =
              \<lparr>title = ''Unwrap optional value'',
               changes =
                 [(''a.res'',
                   [\<lparr>teRange = \<lparr>rangeStart = \<lparr>line = 3, character = 8\<rparr>,
                                 rangeEnd = \<lparr>line = 3, character = 8\<rparr>\<rparr>,
                     newText = ''switch ''\<rparr>,
                    \<lparr>teRange = \<lparr>rangeStart = \<lparr>line = 3, character = 20\<rparr>,
                                 rangeEnd = \<lparr>line = 3, character = 20\<rparr>\<rparr>,
                     newText = '' { | None => '' @ [CHR 0x22, CHR ''-'', CHR 0x22]
                       @ '' | Some(v) => v }''\<rparr>])],
               diagnostics = [exampleDiagnostic], kind = ''quickfix'', isPreferred = True\<rparr>\<rparr>]]"
  using simpleTypeMismatches_option
    [of "exampleConfig optionWrapMessage 0 exampleRange" Map.empty]
    simpleTypeMismatches_option
    [of "exampleConfig optionUnwrapMessage 0 exampleRange" Map.empty]
  by (simp add: exampleConfig_def optionWrapMessage_def
      optionUnwrapMessage_def
      thisHasTypeArr_def somewhereWantedArr_def extractTypename_def removeTrailingComma_def
      trim_def isWhiteSpace_def endsWith_def pushAction_def quickFix_def QuickFix_def
      wrapRangeInText_def exampleRange_def Let_def)

end
